theory Spec2Isabelle
  imports Complex_Main "HOL-Library.Multiset"
begin

section \<open>The historical-data simulator of ios\_app\_simulation\_test.py\<close>

text \<open>
  Python floats are modelled as exact reals, Python ints as \<open>int\<close> or \<open>nat\<close>, a naive
  \<open>datetime\<close> as a number of microseconds. The random generator and the clock belong to
  the environment: their outputs are inputs of the model.
\<close>

type_synonym datetime = int

datatype TestOutcome = SUCCESS | FAILURE | TIMEOUT | RATE_LIMITED

datatype pyerr = KeyError string | ZeroDivisionError | UnboundLocalError string

text \<open>The field \<open>date\<close> holds the calendar day as a day number; the source formats it.\<close>

record HistoricalPrice =
  date :: int
  open_price :: real
  high_price :: real
  low_price :: real
  close_price :: real
  volume :: int
  hp_symbol :: string
  data_source :: string

definition is_valid :: "HistoricalPrice \<Rightarrow> bool" where
  "is_valid p \<longleftrightarrow>
     open_price p > 0 \<and> high_price p > 0 \<and> low_price p > 0 \<and> close_price p > 0 \<and>
     high_price p \<ge> low_price p \<and>
     open_price p \<ge> low_price p \<and> open_price p \<le> high_price p \<and>
     close_price p \<ge> low_price p \<and> close_price p \<le> high_price p"

record CacheEntry =
  ce_symbol :: string
  ce_data :: "HistoricalPrice list"
  timestamp :: datetime
  expiry :: datetime
  hit_count :: nat

record ProviderStats =
  ps_name :: string
  total_requests :: nat
  successful_requests :: nat
  failed_requests :: nat
  total_response_time :: real
  rate_limit_hits :: nat

record provider_config =
  priority :: int
  cost_per_request :: real
  daily_limit :: int
  base_success_rate :: real
  avg_response_time :: real
  rate_limit_threshold :: nat

text \<open>
  The generator: a sequence of draws of \<open>random.random()\<close>, each in \<open>[0, 1)\<close>, and the
  number of draws consumed so far.
\<close>

record rng =
  stream :: "nat \<Rightarrow> real"
  pos :: nat

definition unit_draws :: "rng \<Rightarrow> bool" where
  "unit_draws g \<longleftrightarrow> (\<forall>i. 0 \<le> stream g i \<and> stream g i < 1)"

definition random_random :: "rng \<Rightarrow> real \<times> rng" where
  "random_random g = (stream g (pos g), g\<lparr>pos := Suc (pos g)\<rparr>)"

definition random_uniform :: "real \<Rightarrow> real \<Rightarrow> rng \<Rightarrow> real \<times> rng" where
  "random_uniform a b g = (case random_random g of (r, g') \<Rightarrow> (a + (b - a) * r, g'))"

definition random_randint :: "int \<Rightarrow> int \<Rightarrow> rng \<Rightarrow> int \<times> rng" where
  "random_randint a b g =
     (case random_random g of (r, g') \<Rightarrow> (a + \<lfloor>r * of_int (b - a + 1)\<rfloor>, g'))"

record simulator =
  providers :: "(string \<times> provider_config) list"
  provider_stats :: "string \<rightharpoonup> ProviderStats"
  memory_cache :: "string \<rightharpoonup> CacheEntry"
  disk_cache :: "string \<rightharpoonup> CacheEntry"
  core_data_records :: nat
  gen :: rng

definition new_stats :: "string \<Rightarrow> ProviderStats" where
  "new_stats n = \<lparr>ps_name = n, total_requests = 0, successful_requests = 0,
     failed_requests = 0, total_response_time = 0, rate_limit_hits = 0\<rparr>"

definition init_providers :: "(string \<times> provider_config) list" where
  "init_providers =
     [(''Yahoo Finance'', \<lparr>priority = 1, cost_per_request = 0, daily_limit = 2000,
         base_success_rate = 95 / 100, avg_response_time = 15 / 10, rate_limit_threshold = 60\<rparr>),
      (''EODHD'', \<lparr>priority = 2, cost_per_request = 1 / 100, daily_limit = 1000,
         base_success_rate = 90 / 100, avg_response_time = 2, rate_limit_threshold = 30\<rparr>),
      (''Finnhub'', \<lparr>priority = 3, cost_per_request = 2 / 100, daily_limit = 500,
         base_success_rate = 85 / 100, avg_response_time = 25 / 10, rate_limit_threshold = 20\<rparr>)]"

definition init :: "rng \<Rightarrow> simulator" where
  "init g = \<lparr>providers = init_providers,
     provider_stats = map_of (map (\<lambda>(n, c). (n, new_stats n)) init_providers),
     memory_cache = Map.empty, disk_cache = Map.empty, core_data_records = 0, gen = g\<rparr>"

subsection \<open>The cache\<close>

definition cache_of :: "string \<Rightarrow> simulator \<Rightarrow> (string \<rightharpoonup> CacheEntry)" where
  "cache_of cache_type s = (if cache_type = ''memory'' then memory_cache s else disk_cache s)"

definition set_cache :: "string \<Rightarrow> (string \<rightharpoonup> CacheEntry) \<Rightarrow> simulator \<Rightarrow> simulator" where
  "set_cache cache_type c s =
     (if cache_type = ''memory'' then s\<lparr>memory_cache := c\<rparr> else s\<lparr>disk_cache := c\<rparr>)"

text \<open>\<open>now\<close> is the value of \<open>datetime.now()\<close> read by the call.\<close>

definition check_cache ::
  "datetime \<Rightarrow> string \<Rightarrow> string \<Rightarrow> simulator \<Rightarrow> HistoricalPrice list option \<times> simulator" where
  "check_cache now symb cache_type s =
     (let cache = cache_of cache_type s in
      case cache symb of
        None \<Rightarrow> (None, s)
      | Some entry \<Rightarrow>
          if now < expiry entry
          then (Some (ce_data entry),
                set_cache cache_type (cache(symb \<mapsto> entry\<lparr>hit_count := hit_count entry + 1\<rparr>)) s)
          else (None, set_cache cache_type (cache(symb := None)) s))"

definition store_in_cache ::
  "datetime \<Rightarrow> datetime \<Rightarrow> string \<Rightarrow> HistoricalPrice list \<Rightarrow> string \<Rightarrow> simulator \<Rightarrow> simulator" where
  "store_in_cache now1 now2 symb d cache_type s =
     (let cache = cache_of cache_type s;
          expiry_minutes = (if cache_type = ''memory'' then 5 else 60);
          exp = now1 + expiry_minutes * 60000000
      in set_cache cache_type
           (cache(symb \<mapsto> \<lparr>ce_symbol = symb, ce_data = d, timestamp = now2, expiry = exp,
                           hit_count = 0\<rparr>)) s)"

definition expired_state :: simulator where
  "expired_state = store_in_cache 0 0 ''AAPL'' [] ''disk'' (init \<lparr>stream = (\<lambda>i. 0), pos = 0\<rparr>)"

subsection \<open>Generated prices\<close>

text \<open>
  \<open>round(x, 2)\<close>: Python rounds to the nearest multiple of 0.01, a tie going to the even
  neighbour.
\<close>

definition round_half_even :: "real \<Rightarrow> int" where
  "round_half_even y =
     (let f = \<lfloor>y\<rfloor>; d = y - of_int f
      in if d < 1 / 2 then f else if d > 1 / 2 then f + 1 else if even f then f else f + 1)"

definition py_round2 :: "real \<Rightarrow> real" where
  "py_round2 x = of_int (round_half_even (x * 100)) / 100"

text \<open>
  The loop of \<open>generate_historical_data\<close>: \<open>n\<close> iterations remain of \<open>days\<close>, so the
  index is \<open>i = days - n\<close>. \<open>today i\<close> is the day \<open>datetime.now()\<close> gives in iteration
  \<open>i\<close>. Each iteration draws six numbers, in the order of the source.
\<close>

fun gen_loop ::
  "string \<Rightarrow> string \<Rightarrow> (nat \<Rightarrow> int) \<Rightarrow> nat \<Rightarrow> nat \<Rightarrow> real \<Rightarrow> rng \<Rightarrow> HistoricalPrice list \<times> rng" where
  "gen_loop symb provider today days 0 base_price g = ([], g)"
| "gen_loop symb provider today days (Suc n) base_price g =
     (let i = days - Suc n in
      case random_uniform (- (5 / 100)) (5 / 100) g of (daily_change, g1) \<Rightarrow>
      let base_price' = base_price * (1 + daily_change) in
      case random_uniform (98 / 100) (102 / 100) g1 of (fo, g2) \<Rightarrow>
      let open_p = base_price' * fo in
      case random_uniform (98 / 100) (102 / 100) g2 of (fc, g3) \<Rightarrow>
      let close_p = base_price' * fc in
      case random_uniform 1 (103 / 100) g3 of (fh, g4) \<Rightarrow>
      let high_p = max open_p close_p * fh in
      case random_uniform (97 / 100) 1 g4 of (fl, g5) \<Rightarrow>
      let low_p = min open_p close_p * fl in
      case random_randint 1000000 50000000 g5 of (vol, g6) \<Rightarrow>
      let price = \<lparr>date = today i - (int days - int i - 1),
                   open_price = py_round2 open_p, high_price = py_round2 high_p,
                   low_price = py_round2 low_p, close_price = py_round2 close_p,
                   volume = vol, hp_symbol = symb, data_source = provider\<rparr> in
      case gen_loop symb provider today days n base_price' g6 of (rest, g7) \<Rightarrow>
        (price # rest, g7))"

definition generate_historical_data ::
  "string \<Rightarrow> int \<Rightarrow> string \<Rightarrow> (nat \<Rightarrow> int) \<Rightarrow> rng \<Rightarrow> HistoricalPrice list \<times> rng" where
  "generate_historical_data symb days provider today g =
     (case random_uniform 50 300 g of (base_price, g0) \<Rightarrow>
        gen_loop symb provider today (nat days) (nat days) base_price g0)"

subsection \<open>Simulated calls and failover\<close>

type_synonym call_result = "TestOutcome \<times> HistoricalPrice list \<times> real"

definition simulate_api_call ::
  "string \<Rightarrow> string \<Rightarrow> int \<Rightarrow> (nat \<Rightarrow> int) \<Rightarrow> simulator \<Rightarrow> pyerr + (call_result \<times> simulator)" where
  "simulate_api_call provider symb days today s =
     (case map_of (providers s) provider of
        None \<Rightarrow> Inl (KeyError provider)
      | Some config \<Rightarrow>
     (case provider_stats s provider of
        None \<Rightarrow> Inl (KeyError provider)
      | Some stats \<Rightarrow>
          let base_time = avg_response_time config in
          case random_uniform (base_time * (5 / 10)) (base_time * (15 / 10)) (gen s) of
            (response_time, g1) \<Rightarrow>
          case random_random g1 of (random_factor, g2) \<Rightarrow>
          let s1 = s\<lparr>gen := g2\<rparr> in
          if rate_limit_threshold config = 0 then Inl ZeroDivisionError
          else if total_requests stats mod rate_limit_threshold config = 0 \<and>
                  total_requests stats > 0
          then Inr ((RATE_LIMITED, [], response_time),
                 s1\<lparr>provider_stats := (provider_stats s1)
                      (provider \<mapsto> stats\<lparr>rate_limit_hits := rate_limit_hits stats + 1\<rparr>)\<rparr>)
          else if random_factor < 1 - base_success_rate config
          then Inr ((FAILURE, [], response_time), s1)
          else if random_factor > 98 / 100
          then Inr ((TIMEOUT, [], 30), s1)
          else (case generate_historical_data symb days provider today g2 of
                  (data, g3) \<Rightarrow> Inr ((SUCCESS, data, response_time), s1\<lparr>gen := g3\<rparr>))))"

text \<open>
  The loop of \<open>fetch_with_failover\<close> over the sorted providers. \<open>rt\<close> is the variable
  \<open>response_time\<close>, unbound (\<open>None\<close>) until a call has been made. Beside the result, the
  model returns the calls made, in order, each with its provider and what it returned;
  \<open>time.sleep\<close> changes no state.
\<close>

type_synonym fetch_result = "TestOutcome \<times> HistoricalPrice list \<times> string \<times> real"

fun failover_loop ::
  "(string \<times> provider_config) list \<Rightarrow> string \<Rightarrow> int \<Rightarrow> (nat \<Rightarrow> int) \<Rightarrow> real option \<Rightarrow>
   simulator \<Rightarrow> pyerr + (fetch_result \<times> (string \<times> call_result) list \<times> simulator)" where
  "failover_loop [] symb days today rt s =
     (case rt of
        None \<Rightarrow> Inl (UnboundLocalError ''response_time'')
      | Some t \<Rightarrow> Inr ((FAILURE, [], ''None'', t), [], s))"
| "failover_loop ((provider_name, config) # ps) symb days today rt s =
     (case simulate_api_call provider_name symb days today s of
        Inl e \<Rightarrow> Inl e
      | Inr ((outcome, data, response_time), s1) \<Rightarrow>
     (case provider_stats s1 provider_name of
        None \<Rightarrow> Inl (KeyError provider_name)
      | Some stats \<Rightarrow>
          let stats1 = stats\<lparr>total_requests := total_requests stats + 1,
                             total_response_time := total_response_time stats + response_time\<rparr>
          in
          if outcome = SUCCESS
          then Inr ((outcome, data, provider_name, response_time),
                 [(provider_name, outcome, data, response_time)],
                 s1\<lparr>provider_stats := (provider_stats s1)(provider_name \<mapsto>
                      stats1\<lparr>successful_requests := successful_requests stats1 + 1\<rparr>)\<rparr>)
          else (case failover_loop ps symb days today (Some response_time)
                       (s1\<lparr>provider_stats := (provider_stats s1)(provider_name \<mapsto>
                            stats1\<lparr>failed_requests := failed_requests stats1 + 1\<rparr>)\<rparr>) of
                  Inl e \<Rightarrow> Inl e
                | Inr (res, calls, s2) \<Rightarrow>
                    Inr (res, (provider_name, outcome, data, response_time) # calls, s2))))"

definition fetch_with_failover ::
  "string \<Rightarrow> int \<Rightarrow> (nat \<Rightarrow> int) \<Rightarrow> simulator \<Rightarrow>
   pyerr + (fetch_result \<times> (string \<times> call_result) list \<times> simulator)" where
  "fetch_with_failover symb days today s =
     failover_loop (sort_key (\<lambda>x. priority (snd x)) (providers s)) symb days today None s"

lemma cache_of_set_cache: "cache_of ct (set_cache ct c s) = c"
  by (simp add: cache_of_def set_cache_def)

text \<open>
  C7. \<open>check_cache\<close> returns the cached list, and counts the hit, exactly when the entry
  of the symbol exists and expires strictly after the time of the call; an expired entry is
  deleted and the result is \<open>None\<close>; so after the call the consulted cache holds no expired
  entry for the symbol.
\<close>

theorem check_cache_never_expired:
  "case check_cache now symb ct s of (r, s') \<Rightarrow>
     (case cache_of ct s symb of
        None \<Rightarrow> r = None \<and> s' = s
      | Some e \<Rightarrow>
          if now < expiry e
          then r = Some (ce_data e) \<and>
               cache_of ct s' symb = Some (e\<lparr>hit_count := hit_count e + 1\<rparr>)
          else r = None \<and> cache_of ct s' symb = None) \<and>
     (\<forall>e. cache_of ct s' symb = Some e \<longrightarrow> now < expiry e)"
  by (auto simp: check_cache_def Let_def cache_of_set_cache split: option.splits)

theorem check_cache_never_expired_witness:
  "fst (check_cache 3600000000 ''AAPL'' ''disk'' expired_state) = None \<and>
   cache_of ''disk'' (snd (check_cache 3600000000 ''AAPL'' ''disk'' expired_state)) ''AAPL'' = None \<and>
   fst (check_cache 5 ''AAPL'' ''disk'' expired_state) = Some []"
  using check_cache_never_expired
          [where now = 3600000000 and symb = "''AAPL''" and ct = "''disk''" and s = expired_state]
        check_cache_never_expired
          [where now = 5 and symb = "''AAPL''" and ct = "''disk''" and s = expired_state]
  by (simp add: expired_state_def store_in_cache_def cache_of_def set_cache_def init_def
      split: prod.splits)

end
